theory Spec2Isabelle
  imports Complex_Main "HOL-Library.Sublist"
begin

section \<open>The conversation exchange of App.tsx\<close>

text \<open>
  The component \<^verbatim>\<open>App\<close> keeps three pieces of React state (\<^verbatim>\<open>messages\<close>,
  \<^verbatim>\<open>inputText\<close>, \<^verbatim>\<open>isLoading\<close>) and one handler, \<^verbatim>\<open>handleSendMessage\<close>, wired to the
  send button. The handler is an \<^verbatim>\<open>async\<close> function with a single \<^verbatim>\<open>await\<close>ed network
  call: everything up to the call of \<^verbatim>\<open>fetch\<close> runs when the button is pressed, the rest
  runs when the call settles. The model has one function for each half.

  Strings are lists of \<^typ>\<open>char\<close>, read as code units below 256 (Latin-1), which covers
  every literal of the source. Clock readings (\<^verbatim>\<open>Date.now()\<close>, milliseconds) and HTTP
  status codes are natural numbers.
\<close>

subsection \<open>Values\<close>

text \<open>
  The values \<^verbatim>\<open>response.json()\<close> can produce, and \<^verbatim>\<open>undefined\<close>. The annotation
  \<^verbatim>\<open>text: string\<close> of \<^verbatim>\<open>Message\<close> is erased when the program runs and \<^verbatim>\<open>data\<close> is
  \<^verbatim>\<open>any\<close>, so the \<^verbatim>\<open>text\<close> of a bot message is whatever \<^verbatim>\<open>data.answer\<close> evaluates to.
  The properties of an object are listed with each key once.
\<close>

datatype jsvalue =
    JUndefined
  | JNull
  | JBoolean bool
  | JNumber rat
  | JString string
  | JArray "jsvalue list"
  | JObject "(string \<times> jsvalue) list"

text \<open>A thrown value. Only its \<^verbatim>\<open>message\<close> is ever read (line 123).\<close>

datatype js_error = JsError (message: string)

datatype sender = User | Bot

text \<open>\<^verbatim>\<open>interface Message { id; text; sender }\<close>, lines 60 to 64.\<close>

record Message =
  message_id :: string
  message_text :: jsvalue
  sender :: sender

text \<open>The three \<^verbatim>\<open>useState\<close> cells, lines 82 to 84, with their initial values.\<close>

record state =
  messages :: "Message list"
  inputText :: string
  isLoading :: bool

definition initial_state :: state where
  "initial_state = \<lparr>messages = [], inputText = [], isLoading = False\<rparr>"

subsection \<open>String primitives of the runtime\<close>

text \<open>
  \<^verbatim>\<open>String.prototype.trim\<close> removes the leading and the trailing white space and line
  terminators. Below 256 these are TAB, LF, VT, FF, CR, SPACE and NO-BREAK SPACE.
\<close>

definition isWhiteSpace :: "char \<Rightarrow> bool" where
  "isWhiteSpace c =
     (c = CHR 0x09 \<or> c = CHR 0x0A \<or> c = CHR 0x0B \<or> c = CHR 0x0C \<or> c = CHR 0x0D
      \<or> c = CHR 0x20 \<or> c = CHR 0xA0)"

definition trim :: "string \<Rightarrow> string" where
  "trim s = rev (dropWhile isWhiteSpace (rev (dropWhile isWhiteSpace s)))"

text \<open>\<^verbatim>\<open>Number.prototype.toString\<close> on a non-negative integer: its decimal digits.\<close>

definition digit :: "nat \<Rightarrow> char" where
  "digit d = ''0123456789'' ! d"

fun toString :: "nat \<Rightarrow> string" where
  "toString n = (if n < 10 then [digit n] else toString (n div 10) @ [digit (n mod 10)])"

declare toString.simps [simp del]

subsection \<open>The network call\<close>

definition BACKEND_URL :: string where
  "BACKEND_URL = ''https://bsi-agent-v2-backend.onrender.com/ask''"

text \<open>
  The argument of \<^verbatim>\<open>JSON.stringify\<close> at lines 106 to 109, and the call of \<^verbatim>\<open>fetch\<close>
  around it.
\<close>

record request_body =
  question :: string
  history :: "Message list"

record request =
  url :: string
  http_method :: string
  headers :: "(string \<times> string) list"
  body :: request_body

text \<open>
  What the handler can observe of a \<^verbatim>\<open>Response\<close>: \<^verbatim>\<open>ok\<close>, \<^verbatim>\<open>status\<close>, and what
  \<^verbatim>\<open>await response.text()\<close> and \<^verbatim>\<open>await response.json()\<close> give, each either a thrown
  error (\<open>Inl\<close>) or a value. The promise returned by \<^verbatim>\<open>fetch\<close> is either rejected with
  an error or resolved with a response.
\<close>

record response =
  ok :: bool
  status :: nat
  text_result :: "js_error + string"
  json_result :: "js_error + jsvalue"

datatype fetch_outcome = Rejected js_error | Resolved response

text \<open>
  \<^verbatim>\<open>data.answer\<close>: reading a property of \<^verbatim>\<open>null\<close> or \<^verbatim>\<open>undefined\<close> throws a
  \<^verbatim>\<open>TypeError\<close> (the wording of its message is the engine's; nothing below depends on
  it); an object gives the property or \<^verbatim>\<open>undefined\<close>; no other value has a property of
  that name.
\<close>

definition read_TypeError :: "string \<Rightarrow> js_error" where
  "read_TypeError v = JsError (''Cannot read property 'answer' of '' @ v)"

fun data_answer :: "jsvalue \<Rightarrow> js_error + jsvalue" where
  "data_answer JUndefined = Inl (read_TypeError ''undefined'')"
| "data_answer JNull = Inl (read_TypeError ''null'')"
| "data_answer (JObject props) =
     Inr (case map_of props ''answer'' of None \<Rightarrow> JUndefined | Some v \<Rightarrow> v)"
| "data_answer _ = Inr JUndefined"

subsection \<open>handleSendMessage, lines 87 to 129\<close>

text \<open>
  Lines 88 to 110, run when the handler is called: the early return on an empty trimmed
  input, the user message, the three state updates, and the request handed to \<^verbatim>\<open>fetch\<close>.
  \<open>now\<close> is the reading of \<^verbatim>\<open>Date.now()\<close> at line 92. The result is the new state and
  the request issued, if any. \<^verbatim>\<open>Keyboard.dismiss()\<close> touches none of the state and is
  left out.
\<close>

definition handleSendMessage_begin :: "nat \<Rightarrow> state \<Rightarrow> state \<times> request option" where
  "handleSendMessage_begin now s =
     (let trimmedText = trim (inputText s) in
      if trimmedText = [] then (s, None)
      else
        let userMessage = \<lparr>message_id = toString now, message_text = JString trimmedText,
                             sender = User\<rparr>;
            currentMessages = messages s;
            s' = s\<lparr>messages := userMessage # messages s, inputText := [], isLoading := True\<rparr>;
            conversationHistory = rev currentMessages
        in (s', Some \<lparr>url = BACKEND_URL, http_method = ''POST'',
                      headers = [(''Content-Type'', ''application/json'')],
                      body = \<lparr>question = trimmedText, history = conversationHistory\<rparr>\<rparr>))"

text \<open>
  Lines 112 to 119, the rest of the \<^verbatim>\<open>try\<close> block once \<^verbatim>\<open>fetch\<close> has settled: \<open>Inl\<close> is
  a throw, \<open>Inr\<close> the bot message built at line 118. \<open>now\<close> is the reading of
  \<^verbatim>\<open>Date.now()\<close> there.
\<close>

definition server_error :: "nat \<Rightarrow> string \<Rightarrow> js_error" where
  "server_error st errorData =
     JsError (''Erro do Servidor: '' @ toString st @ '' - '' @ errorData)"

definition try_block :: "fetch_outcome \<Rightarrow> nat \<Rightarrow> js_error + Message" where
  "try_block outcome now =
     (case outcome of
        Rejected e \<Rightarrow> Inl e
      | Resolved r \<Rightarrow>
          if \<not> ok r then
            (case text_result r of
               Inl e \<Rightarrow> Inl e
             | Inr errorData \<Rightarrow> Inl (server_error (status r) errorData))
          else
            (case json_result r of
               Inl e \<Rightarrow> Inl e
             | Inr data \<Rightarrow>
                 (case data_answer data of
                    Inl e \<Rightarrow> Inl e
                  | Inr answer \<Rightarrow>
                      Inr \<lparr>message_id = toString (now + 1), message_text = answer,
                           sender = Bot\<rparr>)))"

text \<open>Lines 121 to 125, the \<^verbatim>\<open>catch\<close> block: the message built from the caught error.\<close>

definition failure_prefix :: string where
  "failure_prefix = ''Falha na comunica'' @ [CHR 0xE7, CHR 0xE3] @ ''o: ''"

definition catch_block :: "js_error \<Rightarrow> nat \<Rightarrow> Message" where
  "catch_block e now =
     (let errorText = failure_prefix @ message e
      in \<lparr>message_id = toString (now + 1), message_text = JString errorText, sender = Bot\<rparr>)"

text \<open>
  Lines 112 to 128, run when \<^verbatim>\<open>fetch\<close> settles: the message of the \<^verbatim>\<open>try\<close> or of the
  \<^verbatim>\<open>catch\<close> block is put in front of the list as it is then (\<^verbatim>\<open>prev\<close>), and the
  \<^verbatim>\<open>finally\<close> block clears \<^verbatim>\<open>isLoading\<close>. \<open>now\<close> is the reading of \<^verbatim>\<open>Date.now()\<close>
  that ends up in the id of the reply, taken at line 118 or at line 124.
\<close>

definition handleSendMessage_settle :: "fetch_outcome \<Rightarrow> nat \<Rightarrow> state \<Rightarrow> state" where
  "handleSendMessage_settle outcome now s =
     (let reply = (case try_block outcome now of
                     Inr botResponse \<Rightarrow> botResponse
                   | Inl e \<Rightarrow> catch_block e now)
      in s\<lparr>messages := reply # messages s, isLoading := False\<rparr>)"

text \<open>
  A whole call with nothing happening in between: \<open>backend\<close> is what \<^verbatim>\<open>fetch\<close> settles
  to for a request, \<open>now1\<close> and \<open>now2\<close> the two readings of the clock.
\<close>

definition handleSendMessage ::
  "nat \<Rightarrow> (request \<Rightarrow> fetch_outcome) \<Rightarrow> nat \<Rightarrow> state \<Rightarrow> state" where
  "handleSendMessage now1 backend now2 s =
     (case handleSendMessage_begin now1 s of
        (s', None) \<Rightarrow> s'
      | (s', Some req) \<Rightarrow> handleSendMessage_settle (backend req) now2 s')"

subsection \<open>The send button and a session of the component\<close>

text \<open>
  Line 206: \<^verbatim>\<open>onPress={handleSendMessage} disabled={isLoading}\<close>. A disabled
  \<^verbatim>\<open>TouchableOpacity\<close> does not call \<^verbatim>\<open>onPress\<close>. The button is the only caller of the
  handler.
\<close>

definition sendButton_onPress :: "nat \<Rightarrow> state \<Rightarrow> state \<times> request option" where
  "sendButton_onPress now s =
     (if isLoading s then (s, None) else handleSendMessage_begin now s)"

text \<open>
  What can happen to the component: the user edits the input (\<^verbatim>\<open>onChangeText\<close>, line
  203), presses the send button, or a pending \<^verbatim>\<open>fetch\<close> settles. A session holds the
  state and the requests issued and not yet settled. Each event sees the state the one
  before it left.
\<close>

datatype event = ChangeText string | PressSend nat | Settle fetch_outcome nat

record session =
  ui :: state
  in_flight :: "request list"

fun step :: "session \<Rightarrow> event \<Rightarrow> session" where
  "step c (ChangeText t) = c\<lparr>ui := (ui c)\<lparr>inputText := t\<rparr>\<rparr>"
| "step c (PressSend now) =
     (case sendButton_onPress now (ui c) of
        (s', None) \<Rightarrow> c\<lparr>ui := s'\<rparr>
      | (s', Some req) \<Rightarrow> \<lparr>ui = s', in_flight = in_flight c @ [req]\<rparr>)"
| "step c (Settle outcome now) =
     (case in_flight c of
        [] \<Rightarrow> c
      | req # rest \<Rightarrow> \<lparr>ui = handleSendMessage_settle outcome now (ui c), in_flight = rest\<rparr>)"

definition run :: "event list \<Rightarrow> session" where
  "run evs = foldl step \<lparr>ui = initial_state, in_flight = []\<rparr> evs"

text \<open>
  The invariant of a session: a request is in flight exactly while \<^verbatim>\<open>isLoading\<close> is
  set, and never more than one.
\<close>

definition gated :: "session \<Rightarrow> bool" where
  "gated c = (length (in_flight c) \<le> 1 \<and> isLoading (ui c) = (in_flight c \<noteq> []))"

section \<open>Properties\<close>

subsection \<open>Helper facts\<close>

lemma trim_eq_Nil_iff: "trim s = [] \<longleftrightarrow> list_all isWhiteSpace s"
proof
  assume empty: "trim s = []"
  have "dropWhile isWhiteSpace s = []"
  proof (rule ccontr)
    assume rest: "dropWhile isWhiteSpace s \<noteq> []"
    then have "\<not> isWhiteSpace (hd (dropWhile isWhiteSpace s))"
      by (rule hd_dropWhile)
    moreover have "hd (dropWhile isWhiteSpace s) \<in> set (dropWhile isWhiteSpace s)"
      using rest by simp
    moreover have "\<forall>c \<in> set (dropWhile isWhiteSpace s). isWhiteSpace c"
      using empty by (simp add: trim_def dropWhile_eq_Nil_conv)
    ultimately show False by blast
  qed
  then show "list_all isWhiteSpace s"
    by (simp add: dropWhile_eq_Nil_conv list_all_iff)
next
  assume "list_all isWhiteSpace s"
  then have d: "dropWhile isWhiteSpace s = []"
    by (simp add: dropWhile_eq_Nil_conv list_all_iff)
  show "trim s = []"
    unfolding trim_def d by simp
qed

text \<open>
  Decimal numerals are unique, so two ids are equal exactly when the numbers they were
  made from are; the \<^verbatim>\<open>+ 1\<close> of lines 118 and 124 keeps the id of a reply apart from
  the id of its question as long as the clock does not run backwards in between.
\<close>

lemma toString_not_Nil: "toString n \<noteq> []" "[] \<noteq> toString n"
  by (subst toString.simps, simp)+

lemma digit_inj: "a < 10 \<Longrightarrow> b < 10 \<Longrightarrow> digit a = digit b \<Longrightarrow> a = b"
proof -
  assume a: "a < 10" and b: "b < 10" and eq: "digit a = digit b"
  have "a \<in> {0, 1, 2, 3, 4, 5, 6, 7, 8, 9}" using a by auto
  moreover have "b \<in> {0, 1, 2, 3, 4, 5, 6, 7, 8, 9}" using b by auto
  ultimately show "a = b" using eq by (auto simp: digit_def)
qed

lemma toString_inj: "toString m = toString n \<Longrightarrow> m = n"
proof (induction m arbitrary: n rule: toString.induct)
  case (1 m)
  show ?case
  proof (cases "m < 10")
    case small_m: True
    show ?thesis
    proof (cases "n < 10")
      case True
      with small_m "1.prems" show ?thesis
        by (subst (asm) (1 2) toString.simps) (simp add: digit_inj)
    next
      case False
      with small_m "1.prems" show ?thesis
        by (subst (asm) (1 2) toString.simps) (simp add: toString_not_Nil)
    qed
  next
    case big_m: False
    show ?thesis
    proof (cases "n < 10")
      case True
      with big_m "1.prems" show ?thesis
        by (subst (asm) (1 2) toString.simps) (simp add: toString_not_Nil)
    next
      case False
      with big_m "1.prems" have "toString (m div 10) = toString (n div 10)"
        and d: "digit (m mod 10) = digit (n mod 10)"
        by (subst (asm) (1 2) toString.simps, simp)+
      then have "m div 10 = n div 10"
        using "1.IH" big_m by blast
      moreover have "m mod 10 = n mod 10"
        using d by (simp add: digit_inj)
      ultimately show ?thesis
        by (metis div_mult_mod_eq)
    qed
  qed
qed

lemma reply_id_differs_from_question_id:
  "now1 \<le> now2 \<Longrightarrow> toString now1 \<noteq> toString (now2 + 1)"
  by (auto dest: toString_inj)

lemma settle_unfold:
  "handleSendMessage_settle outcome now s =
     s\<lparr>messages := (case try_block outcome now of Inr botResponse \<Rightarrow> botResponse
                                                | Inl e \<Rightarrow> catch_block e now) # messages s,
       isLoading := False\<rparr>"
  by (simp add: handleSendMessage_settle_def)

lemma sender_try_block: "try_block outcome now = Inr m \<Longrightarrow> sender m = Bot"
  by (auto simp: try_block_def split: fetch_outcome.splits sum.splits if_splits)

lemma sender_catch_block: "sender (catch_block e now) = Bot"
  by (simp add: catch_block_def)

lemma gated_step: "gated c \<Longrightarrow> gated (step c e)"
proof (cases e)
  case (ChangeText t)
  assume "gated c"
  then show ?thesis using ChangeText by (simp add: gated_def)
next
  case (PressSend now)
  assume g: "gated c"
  show ?thesis
  proof (cases "isLoading (ui c)")
    case True
    then show ?thesis using g PressSend by (simp add: sendButton_onPress_def)
  next
    case False
    then have "in_flight c = []" using g by (simp add: gated_def)
    then show ?thesis using False PressSend g
      by (simp add: gated_def sendButton_onPress_def handleSendMessage_begin_def Let_def)
  qed
next
  case (Settle outcome now)
  assume "gated c"
  then show ?thesis using Settle
    by (cases "in_flight c") (simp_all add: gated_def settle_unfold)
qed

lemma gated_foldl: "gated c \<Longrightarrow> gated (foldl step c evs)"
  by (induction evs arbitrary: c) (simp_all add: gated_step)

lemma gated_run: "gated (run evs)"
  unfolding run_def by (rule gated_foldl) (simp add: gated_def initial_state_def)

subsection \<open>The claims\<close>

text \<open>
  C1. Whatever the network call settles to (a rejected promise, a response with a
  non-success status, a success response whose body does or does not parse), the
  continuation of the handler puts exactly one message with sender \<^verbatim>\<open>bot\<close> in front of
  \<^verbatim>\<open>messages\<close> and sets \<^verbatim>\<open>isLoading\<close> to false, in whatever state it finds the
  component. Every throw of the \<^verbatim>\<open>try\<close> block is a value \<open>Inl\<close> of \<open>try_block\<close>
  and is consumed by \<open>catch_block\<close>, so nothing leaves the handler.
\<close>

theorem exchange_resolves_with_one_bot_message:
  "\<exists>reply. sender reply = Bot
     \<and> handleSendMessage_settle outcome now s
         = s\<lparr>messages := reply # messages s, isLoading := False\<rparr>
     \<and> length (messages (handleSendMessage_settle outcome now s))
         = Suc (length (messages s))
     \<and> \<not> isLoading (handleSendMessage_settle outcome now s)"
proof (cases "try_block outcome now")
  case (Inl e)
  then show ?thesis
    by (intro exI [of _ "catch_block e now"]) (simp add: settle_unfold sender_catch_block)
next
  case (Inr m)
  then show ?thesis
    by (intro exI [of _ m]) (simp add: settle_unfold sender_try_block)
qed

text \<open>
  C2. When the trimmed input is not empty, the part of the handler that runs before the
  network call puts one message with sender \<^verbatim>\<open>user\<close> and the trimmed text in front of
  \<^verbatim>\<open>messages\<close>, empties \<^verbatim>\<open>inputText\<close> and sets \<^verbatim>\<open>isLoading\<close>.
\<close>

theorem submit_prepends_user_message:
  "trim (inputText s) \<noteq> [] \<Longrightarrow>
   fst (handleSendMessage_begin now s)
     = s\<lparr>messages := \<lparr>message_id = toString now,
                       message_text = JString (trim (inputText s)),
                       sender = User\<rparr> # messages s,
         inputText := [],
         isLoading := True\<rparr>"
  by (simp add: handleSendMessage_begin_def Let_def)

theorem submit_prepends_user_message_witness:
  "trim (inputText \<lparr>messages = [], inputText = ''  Hello '', isLoading = False\<rparr>) \<noteq> []
   \<and> fst (handleSendMessage_begin 1000
            \<lparr>messages = [], inputText = ''  Hello '', isLoading = False\<rparr>)
       = \<lparr>messages = [\<lparr>message_id = ''1000'', message_text = JString ''Hello'',
                        sender = User\<rparr>],
          inputText = [], isLoading = True\<rparr>"
proof -
  let ?s = "\<lparr>messages = [], inputText = ''  Hello '', isLoading = False\<rparr>"
  have t: "trim ''  Hello '' = ''Hello''"
    by (simp add: trim_def isWhiteSpace_def)
  have n: "toString 1000 = ''1000''"
    by (simp add: toString.simps digit_def)
  have h: "trim (inputText ?s) \<noteq> []"
    by (simp add: t)
  show ?thesis
    using submit_prepends_user_message [OF h, of 1000] h by (simp add: t n)
qed

text \<open>
  C3. The request issued for a non-empty trimmed input carries, as \<^verbatim>\<open>history\<close>, the
  message list of before the call in reverse (oldest first), without the new user
  message, and the trimmed input as \<^verbatim>\<open>question\<close>.
\<close>

theorem request_history_is_prior_messages_reversed:
  "trim (inputText s) \<noteq> [] \<Longrightarrow>
   map_option body (snd (handleSendMessage_begin now s))
     = Some \<lparr>question = trim (inputText s), history = rev (messages s)\<rparr>"
  by (simp add: handleSendMessage_begin_def Let_def)

theorem request_history_is_prior_messages_reversed_witness:
  "trim (inputText
      \<lparr>messages = [\<lparr>message_id = ''1235'', message_text = JString ''Hi'', sender = Bot\<rparr>,
                   \<lparr>message_id = ''1000'', message_text = JString ''Hello'', sender = User\<rparr>],
       inputText = ''How are you?'', isLoading = False\<rparr>) \<noteq> []
   \<and> map_option body (snd (handleSendMessage_begin 2000
      \<lparr>messages = [\<lparr>message_id = ''1235'', message_text = JString ''Hi'', sender = Bot\<rparr>,
                   \<lparr>message_id = ''1000'', message_text = JString ''Hello'', sender = User\<rparr>],
       inputText = ''How are you?'', isLoading = False\<rparr>))
     = Some \<lparr>question = ''How are you?'',
             history =
               [\<lparr>message_id = ''1000'', message_text = JString ''Hello'', sender = User\<rparr>,
                \<lparr>message_id = ''1235'', message_text = JString ''Hi'', sender = Bot\<rparr>]\<rparr>"
proof -
  let ?s = "\<lparr>messages = [\<lparr>message_id = ''1235'', message_text = JString ''Hi'', sender = Bot\<rparr>,
                   \<lparr>message_id = ''1000'', message_text = JString ''Hello'', sender = User\<rparr>],
       inputText = ''How are you?'', isLoading = False\<rparr>"
  have t: "trim ''How are you?'' = ''How are you?''"
    by (simp add: trim_def isWhiteSpace_def)
  have h: "trim (inputText ?s) \<noteq> []"
    by (simp add: t)
  show ?thesis
    using request_history_is_prior_messages_reversed [OF h, of 2000] h by (simp add: t)
qed


text \<open>
  C4. The send button is the only caller of the handler and is disabled while
  \<^verbatim>\<open>isLoading\<close> is set (line 206). A press in such a state leaves \<^verbatim>\<open>messages\<close>,
  \<^verbatim>\<open>inputText\<close> and \<^verbatim>\<open>isLoading\<close> as they are and issues no request: the session after
  the press is the session before it. In every session at most one request is in flight,
  and one is in flight exactly while \<^verbatim>\<open>isLoading\<close> is set. The witness is a press while
  the first exchange of a session is still pending, with new text already typed.
\<close>

theorem press_while_loading_is_noop:
  "(isLoading s \<longrightarrow> sendButton_onPress now s = (s, None))
   \<and> (isLoading (ui (run evs)) \<longrightarrow> run (evs @ [PressSend now]) = run evs)
   \<and> (in_flight (run evs) \<noteq> [] \<longrightarrow> run (evs @ [PressSend now]) = run evs)
   \<and> length (in_flight (run evs)) \<le> 1
   \<and> length (in_flight (run (evs @ [PressSend now]))) \<le> 1
   \<and> isLoading (ui (run evs)) = (in_flight (run evs) \<noteq> [])"
proof -
  have gate: "sendButton_onPress now s = (s, None)" if "isLoading s" for s
    using that by (simp add: sendButton_onPress_def)
  have press: "run (evs @ [PressSend now]) = step (run evs) (PressSend now)"
    by (simp add: run_def)
  have noop: "run (evs @ [PressSend now]) = run evs" if "isLoading (ui (run evs))"
    using that by (simp add: press gate)
  have inv: "length (in_flight (run evs)) \<le> 1"
    "isLoading (ui (run evs)) = (in_flight (run evs) \<noteq> [])"
    using gated_run [of evs] by (simp_all add: gated_def)
  have inv': "length (in_flight (run (evs @ [PressSend now]))) \<le> 1"
    using gated_run [of "evs @ [PressSend now]"] by (simp add: gated_def)
  show ?thesis
    using gate noop inv inv' by blast
qed

theorem press_while_loading_is_noop_witness:
  "ui (run [ChangeText ''a'', PressSend 1000, ChangeText ''b''])
     = \<lparr>messages = [\<lparr>message_id = ''1000'', message_text = JString ''a'', sender = User\<rparr>],
        inputText = ''b'', isLoading = True\<rparr>
   \<and> isLoading (ui (run [ChangeText ''a'', PressSend 1000, ChangeText ''b'']))
   \<and> in_flight (run [ChangeText ''a'', PressSend 1000, ChangeText ''b'']) \<noteq> []
   \<and> sendButton_onPress 1001 (ui (run [ChangeText ''a'', PressSend 1000, ChangeText ''b'']))
       = (ui (run [ChangeText ''a'', PressSend 1000, ChangeText ''b'']), None)
   \<and> run ([ChangeText ''a'', PressSend 1000, ChangeText ''b''] @ [PressSend 1001])
       = run [ChangeText ''a'', PressSend 1000, ChangeText ''b'']
   \<and> length (in_flight (run [ChangeText ''a'', PressSend 1000, ChangeText ''b''])) \<le> 1"
proof -
  let ?evs = "[ChangeText ''a'', PressSend 1000, ChangeText ''b'']"
  have n: "toString 1000 = ''1000''"
    by (simp add: toString.simps digit_def)
  have t: "trim ''a'' = ''a''"
    by (simp add: trim_def isWhiteSpace_def)
  have u: "ui (run ?evs)
     = \<lparr>messages = [\<lparr>message_id = ''1000'', message_text = JString ''a'', sender = User\<rparr>],
        inputText = ''b'', isLoading = True\<rparr>"
    by (simp add: run_def initial_state_def sendButton_onPress_def handleSendMessage_begin_def
                  Let_def n t)
  have l: "isLoading (ui (run ?evs))"
    by (simp add: u)
  have f: "in_flight (run ?evs) \<noteq> []"
    by (simp add: run_def initial_state_def sendButton_onPress_def handleSendMessage_begin_def
                  Let_def n t)
  show ?thesis
    using press_while_loading_is_noop [of "ui (run ?evs)" 1001 ?evs] u l f by blast
qed

text \<open>
  C5. When the input is empty or holds white space only, the handler returns at line 89:
  the state is the one it was called in and no request is issued.
\<close>

theorem blank_input_is_noop:
  "list_all isWhiteSpace (inputText s) \<Longrightarrow> handleSendMessage_begin now s = (s, None)"
  by (simp add: handleSendMessage_begin_def trim_eq_Nil_iff)

theorem blank_input_is_noop_witness:
  "list_all isWhiteSpace (inputText \<lparr>messages = [], inputText = [CHR 0x20, CHR 0x09, CHR 0x0A],
                                      isLoading = False\<rparr>)
   \<and> list_all isWhiteSpace (inputText \<lparr>messages = [], inputText = [], isLoading = False\<rparr>)
   \<and> handleSendMessage_begin 1000
        \<lparr>messages = [], inputText = [CHR 0x20, CHR 0x09, CHR 0x0A], isLoading = False\<rparr>
       = (\<lparr>messages = [], inputText = [CHR 0x20, CHR 0x09, CHR 0x0A], isLoading = False\<rparr>, None)
   \<and> handleSendMessage_begin 1000 \<lparr>messages = [], inputText = [], isLoading = False\<rparr>
       = (\<lparr>messages = [], inputText = [], isLoading = False\<rparr>, None)"
proof -
  let ?s = "\<lparr>messages = [], inputText = [CHR 0x20, CHR 0x09, CHR 0x0A], isLoading = False\<rparr>"
  let ?e = "\<lparr>messages = [], inputText = [], isLoading = False\<rparr>"
  have hs: "list_all isWhiteSpace (inputText ?s)"
    by (simp add: isWhiteSpace_def)
  have he: "list_all isWhiteSpace (inputText ?e)"
    by simp
  show ?thesis
    using blank_input_is_noop [OF hs, of 1000] blank_input_is_noop [OF he, of 1000] hs he
    by simp
qed

text \<open>
  C6. When the response has a success status and its body parses to an object whose
  \<^verbatim>\<open>answer\<close> is a string, the continuation puts one message with sender \<^verbatim>\<open>bot\<close> and
  that string as text in front of \<^verbatim>\<open>messages\<close>. The witness is the exchange of the
  input \<^verbatim>\<open>Hello\<close> answered with \<^verbatim>\<open>{answer: "Hi"}\<close>.
\<close>

theorem success_prepends_answer:
  "ok r \<Longrightarrow> json_result r = Inr (JObject props) \<Longrightarrow>
   map_of props ''answer'' = Some (JString answer) \<Longrightarrow>
   handleSendMessage_settle (Resolved r) now s
     = s\<lparr>messages := \<lparr>message_id = toString (now + 1), message_text = JString answer,
                       sender = Bot\<rparr> # messages s,
         isLoading := False\<rparr>"
  by (simp add: settle_unfold try_block_def)

theorem success_prepends_answer_witness:
  \<open>ok \<lparr>ok = True, status = 200, text_result = Inr ''{"answer":"Hi"}'',
        json_result = Inr (JObject [(''answer'', JString ''Hi'')])\<rparr>
   \<and> map_of [(''answer'', JString ''Hi'')] ''answer'' = Some (JString ''Hi'')
   \<and> handleSendMessage 1000
        (\<lambda>req. Resolved \<lparr>ok = True, status = 200, text_result = Inr ''{"answer":"Hi"}'',
                           json_result = Inr (JObject [(''answer'', JString ''Hi'')])\<rparr>)
        1234 \<lparr>messages = [], inputText = ''Hello'', isLoading = False\<rparr>
       = \<lparr>messages = [\<lparr>message_id = ''1235'', message_text = JString ''Hi'', sender = Bot\<rparr>,
                       \<lparr>message_id = ''1000'', message_text = JString ''Hello'',
                        sender = User\<rparr>],
          inputText = [], isLoading = False\<rparr>\<close>
proof -
  let ?r = \<open>\<lparr>ok = True, status = 200, text_result = Inr ''{"answer":"Hi"}'',
             json_result = Inr (JObject [(''answer'', JString ''Hi'')])\<rparr>\<close>
  let ?s' = "\<lparr>messages = [\<lparr>message_id = ''1000'', message_text = JString ''Hello'',
                              sender = User\<rparr>],
              inputText = [], isLoading = True\<rparr>"
  have h1: "ok ?r" by simp
  have h2: "json_result ?r = Inr (JObject [(''answer'', JString ''Hi'')])" by simp
  have h3: "map_of [(''answer'', JString ''Hi'')] ''answer'' = Some (JString ''Hi'')" by simp
  have n1: "toString 1000 = ''1000''" by (simp add: toString.simps digit_def)
  have n2: "toString 1235 = ''1235''" by (simp add: toString.simps digit_def)
  have t: "trim ''Hello'' = ''Hello''" by (simp add: trim_def isWhiteSpace_def)
  have b: "handleSendMessage_begin 1000 \<lparr>messages = [], inputText = ''Hello'', isLoading = False\<rparr>
             = (?s', Some \<lparr>url = BACKEND_URL, http_method = ''POST'',
                           headers = [(''Content-Type'', ''application/json'')],
                           body = \<lparr>question = ''Hello'', history = []\<rparr>\<rparr>)"
    by (simp add: handleSendMessage_begin_def Let_def t n1)
  show ?thesis
    using success_prepends_answer [OF h1 h2 h3, of 1234 ?s'] h1
    by (simp add: handleSendMessage_def b n2)
qed

text \<open>
  C7. When the response has a non-success status and its body is read as the text
  \<open>errorData\<close>, the continuation puts in front of \<^verbatim>\<open>messages\<close> one message with sender
  \<^verbatim>\<open>bot\<close> whose text holds the decimal status code and \<open>errorData\<close>; the error thrown
  at line 114 is caught at line 121. The witness is the status 500 with the body
  \<^verbatim>\<open>oops\<close>.
\<close>

theorem server_error_reported_with_status_and_body:
  "\<not> ok r \<Longrightarrow> text_result r = Inr errorData \<Longrightarrow>
   \<exists>t. handleSendMessage_settle (Resolved r) now s
         = s\<lparr>messages := \<lparr>message_id = toString (now + 1), message_text = JString t,
                           sender = Bot\<rparr> # messages s,
             isLoading := False\<rparr>
     \<and> t = failure_prefix @ ''Erro do Servidor: '' @ toString (status r) @ '' - '' @ errorData
     \<and> sublist (toString (status r)) t
     \<and> sublist errorData t"
proof -
  assume h: "\<not> ok r" "text_result r = Inr errorData"
  let ?t = "failure_prefix @ ''Erro do Servidor: '' @ toString (status r) @ '' - '' @ errorData"
  have code: "sublist (toString (status r)) ?t"
    unfolding sublist_def
    by (intro exI [of _ "failure_prefix @ ''Erro do Servidor: ''"]
              exI [of _ "'' - '' @ errorData"]) simp
  have detail: "sublist errorData ?t"
    unfolding sublist_def
    by (intro exI [of _ "failure_prefix @ ''Erro do Servidor: '' @ toString (status r) @ '' - ''"]
              exI [of _ "[]"]) simp
  have "handleSendMessage_settle (Resolved r) now s
         = s\<lparr>messages := \<lparr>message_id = toString (now + 1), message_text = JString ?t,
                           sender = Bot\<rparr> # messages s,
             isLoading := False\<rparr>"
    using h by (simp add: settle_unfold try_block_def catch_block_def server_error_def)
  with code detail show ?thesis by blast
qed


theorem server_error_reported_with_status_and_body_witness:
  "\<not> ok \<lparr>ok = False, status = 500, text_result = Inr ''oops'',
            json_result = Inl (JsError ''JSON Parse error: Unexpected token: o'')\<rparr>
   \<and> handleSendMessage_settle
        (Resolved \<lparr>ok = False, status = 500, text_result = Inr ''oops'',
                   json_result = Inl (JsError ''JSON Parse error: Unexpected token: o'')\<rparr>)
        1234 \<lparr>messages = [], inputText = [], isLoading = True\<rparr>
       = \<lparr>messages =
            [\<lparr>message_id = ''1235'',
              message_text = JString (failure_prefix @ ''Erro do Servidor: 500 - oops''),
              sender = Bot\<rparr>],
          inputText = [], isLoading = False\<rparr>
   \<and> sublist ''500'' (failure_prefix @ ''Erro do Servidor: 500 - oops'')
   \<and> sublist ''oops'' (failure_prefix @ ''Erro do Servidor: 500 - oops'')"
proof -
  let ?r = "\<lparr>ok = False, status = 500, text_result = Inr ''oops'',
             json_result = Inl (JsError ''JSON Parse error: Unexpected token: o'')\<rparr>"
  have h1: "\<not> ok ?r" by simp
  have h2: "text_result ?r = Inr ''oops''" by simp
  have n1: "toString 500 = ''500''" by (simp add: toString.simps digit_def)
  have n2: "toString 1235 = ''1235''" by (simp add: toString.simps digit_def)
  show ?thesis
    using server_error_reported_with_status_and_body
      [OF h1 h2, of 1234 "\<lparr>messages = [], inputText = [], isLoading = True\<rparr>"]
    by (simp add: n1 n2)
qed

text \<open>
  C8. When the promise of \<^verbatim>\<open>fetch\<close> is rejected with the error \<open>e\<close>, the continuation
  puts in front of \<^verbatim>\<open>messages\<close> one message with sender \<^verbatim>\<open>bot\<close> whose text is the
  22 code units of \<^verbatim>\<open>Falha na comunicacao: \<close> (the literal of line 123, with its
  cedilla, code unit E7, and its tilde, code unit E3) followed by the message of \<open>e\<close>,
  and clears \<^verbatim>\<open>isLoading\<close>. The instance after the theorem is a failed request of
  the network layer.
\<close>

theorem transport_failure_reported:
  "\<exists>t. handleSendMessage_settle (Rejected e) now s
         = s\<lparr>messages := \<lparr>message_id = toString (now + 1), message_text = JString t,
                           sender = Bot\<rparr> # messages s,
             isLoading := False\<rparr>
     \<and> t = ''Falha na comunica'' @ [CHR 0xE7, CHR 0xE3] @ ''o: '' @ message e
     \<and> t = failure_prefix @ message e
     \<and> prefix (''Falha na comunica'' @ [CHR 0xE7, CHR 0xE3] @ ''o: '') t
     \<and> prefix failure_prefix t
     \<and> sublist (message e) t
     \<and> length t = 22 + length (message e)"
proof -
  let ?p = "''Falha na comunica'' @ [CHR 0xE7, CHR 0xE3] @ ''o: ''"
  have p: "failure_prefix = ?p"
    by (simp add: failure_prefix_def)
  have "handleSendMessage_settle (Rejected e) now s
         = s\<lparr>messages := \<lparr>message_id = toString (now + 1),
                           message_text = JString (?p @ message e),
                           sender = Bot\<rparr> # messages s,
             isLoading := False\<rparr>"
    by (simp add: settle_unfold try_block_def catch_block_def failure_prefix_def)
  moreover have "prefix ?p (?p @ message e)"
    by (rule prefixI) simp
  moreover have "sublist (message e) (?p @ message e)"
    unfolding sublist_def by (intro exI [of _ ?p] exI [of _ "[]"]) simp
  moreover have "length (?p @ message e) = 22 + length (message e)"
    by simp
  ultimately show ?thesis
    unfolding p by (intro exI [of _ "?p @ message e"]) simp
qed

theorem transport_failure_reported_witness:
  "handleSendMessage_settle (Rejected (JsError ''Network request failed'')) 1500
     \<lparr>messages = [\<lparr>message_id = ''1000'', message_text = JString ''Hello'', sender = User\<rparr>],
      inputText = [], isLoading = True\<rparr>
   = \<lparr>messages =
        [\<lparr>message_id = ''1501'',
          message_text = JString (''Falha na comunica'' @ [CHR 0xE7, CHR 0xE3]
                                   @ ''o: Network request failed''),
          sender = Bot\<rparr>,
         \<lparr>message_id = ''1000'', message_text = JString ''Hello'', sender = User\<rparr>],
      inputText = [], isLoading = False\<rparr>"
proof -
  have n: "toString 1501 = ''1501''"
    by (simp add: toString.simps digit_def)
  from transport_failure_reported
    [of "JsError ''Network request failed''" 1500
        "\<lparr>messages = [\<lparr>message_id = ''1000'', message_text = JString ''Hello'',
                         sender = User\<rparr>],
          inputText = [], isLoading = True\<rparr>"]
  obtain t where
    st: "handleSendMessage_settle (Rejected (JsError ''Network request failed'')) 1500
           \<lparr>messages = [\<lparr>message_id = ''1000'', message_text = JString ''Hello'',
                           sender = User\<rparr>],
            inputText = [], isLoading = True\<rparr>
         = \<lparr>messages = [\<lparr>message_id = ''1000'', message_text = JString ''Hello'',
                           sender = User\<rparr>],
            inputText = [], isLoading = True\<rparr>
             \<lparr>messages := \<lparr>message_id = toString (1500 + 1), message_text = JString t,
                            sender = Bot\<rparr>
                          # messages \<lparr>messages = [\<lparr>message_id = ''1000'',
                                                    message_text = JString ''Hello'',
                                                    sender = User\<rparr>],
                                       inputText = [], isLoading = True\<rparr>,
               isLoading := False\<rparr>"
    and tx: "t = ''Falha na comunica'' @ [CHR 0xE7, CHR 0xE3] @ ''o: ''
                 @ message (JsError ''Network request failed'')"
    by blast
  show ?thesis
    unfolding st tx by (simp add: n)
qed

text \<open>
  C9. The ids are \<^verbatim>\<open>Date.now()\<close> for a user message and \<^verbatim>\<open>Date.now() + 1\<close> for a bot
  message. A reply that arrives at the reading 1500 gets the id 1501, and so does the
  user message of a press at the reading 1501: the list then holds the same id twice.
\<close>

theorem ids_collide_one_millisecond_after_reply:
  "map message_id (messages (ui (run
      [ChangeText ''a'', PressSend 1000, ChangeText ''b'',
       Settle (Rejected (JsError ''Network request failed'')) 1500, PressSend 1501])))
     = [''1501'', ''1501'', ''1000'']
   \<and> \<not> distinct (map message_id (messages (ui (run
      [ChangeText ''a'', PressSend 1000, ChangeText ''b'',
       Settle (Rejected (JsError ''Network request failed'')) 1500, PressSend 1501]))))"
proof -
  have n: "toString 1000 = ''1000''" "toString 1501 = ''1501''"
    by (simp_all add: toString.simps digit_def)
  have t: "trim ''a'' = ''a''" "trim ''b'' = ''b''"
    by (simp_all add: trim_def isWhiteSpace_def)
  have "map message_id (messages (ui (run
      [ChangeText ''a'', PressSend 1000, ChangeText ''b'',
       Settle (Rejected (JsError ''Network request failed'')) 1500, PressSend 1501])))
     = [''1501'', ''1501'', ''1000'']"
    by (simp add: run_def initial_state_def sendButton_onPress_def handleSendMessage_begin_def
                  settle_unfold try_block_def catch_block_def Let_def n t)
  then show ?thesis by simp
qed

text \<open>
  C10. When the response has a success status and \<^verbatim>\<open>response.json()\<close> throws the error
  \<open>e\<close>, the continuation does what it does when \<^verbatim>\<open>fetch\<close> is rejected with \<open>e\<close>: one
  message with sender \<^verbatim>\<open>bot\<close> whose text is the failure prefix followed by the message of
  \<open>e\<close>, and \<^verbatim>\<open>isLoading\<close> cleared.
\<close>

theorem unparsable_body_takes_failure_path:
  "ok r \<Longrightarrow> json_result r = Inl e \<Longrightarrow>
   handleSendMessage_settle (Resolved r) now s = handleSendMessage_settle (Rejected e) now s
   \<and> handleSendMessage_settle (Resolved r) now s
       = s\<lparr>messages := \<lparr>message_id = toString (now + 1),
                         message_text = JString (failure_prefix @ message e),
                         sender = Bot\<rparr> # messages s,
           isLoading := False\<rparr>"
  by (simp add: settle_unfold try_block_def catch_block_def)

theorem unparsable_body_takes_failure_path_witness:
  "ok \<lparr>ok = True, status = 200, text_result = Inr ''<html>'',
        json_result = Inl (JsError ''JSON Parse error: Unexpected token: <'')\<rparr>
   \<and> handleSendMessage_settle
        (Resolved \<lparr>ok = True, status = 200, text_result = Inr ''<html>'',
                   json_result = Inl (JsError ''JSON Parse error: Unexpected token: <'')\<rparr>)
        1234 \<lparr>messages = [], inputText = [], isLoading = True\<rparr>
       = \<lparr>messages =
            [\<lparr>message_id = ''1235'',
              message_text = JString (failure_prefix @ ''JSON Parse error: Unexpected token: <''),
              sender = Bot\<rparr>],
          inputText = [], isLoading = False\<rparr>"
proof -
  let ?r = "\<lparr>ok = True, status = 200, text_result = Inr ''<html>'',
             json_result = Inl (JsError ''JSON Parse error: Unexpected token: <'')\<rparr>"
  have h1: "ok ?r" by simp
  have h2: "json_result ?r = Inl (JsError ''JSON Parse error: Unexpected token: <'')" by simp
  have n: "toString 1235 = ''1235''" by (simp add: toString.simps digit_def)
  show ?thesis
    using unparsable_body_takes_failure_path
      [OF h1 h2, of 1234 "\<lparr>messages = [], inputText = [], isLoading = True\<rparr>", THEN conjunct2]
    by (simp add: n)
qed

end
